theory Spec2Isabelle
  imports Complex_Main "HOL-Library.AList" "HOL-Library.Sublist"
begin

section \<open>Replaying recorded vehicles: the agent and the episode driver\<close>

text \<open>
  A shallow embedding of \<^verbatim>\<open>examples/history_vehicles_replacement_for_imitation_learning.py\<close>.

  Conventions of the embedding:
  \<^item> A Python float is the real number it stands for (no NaN, no infinities), and
    float arithmetic is taken as exact, except inside \<^verbatim>\<open>math.isclose\<close> and for the
    tolerances passed to it: whether a value lies within a tolerance is decided by
    the rounding of the operations, so there every rounding is written out, by a
    parameter \<open>fl\<close> that rounds a real to the nearest float. Python ints are
    \<^typ>\<open>int\<close>.
  \<^item> A Python \<^verbatim>\<open>dict\<close> is the list of its items in iteration order; a lookup is
    \<^const>\<open>map_of\<close> and an insertion is \<^const>\<open>AList.update\<close> (an existing key
    keeps its place, a new key goes last, as in Python).
  \<^item> An exception is a value of \<open>error\<close> on the left of a sum.
  \<^item> Calls to \<^verbatim>\<open>logger\<close> have no effect on any value computed and are left out,
    except the clamping warning, which is returned as a flag.
  \<^item> What the file imports from the simulator (the rounding function of
    \<^verbatim>\<open>rounder_for_dt\<close>, \<^verbatim>\<open>smarts.step\<close>, the traffic history's queries) and
    from the standard library's random generator is a parameter.
\<close>

datatype error = AssertionError | KeyError | TypeError | ValueError | OSError

subsection \<open>Data\<close>

text \<open>One entry of the pickled series: the keys \<^verbatim>\<open>act\<close> reads.\<close>

record recorded_state =
  heading :: real
  speed :: real
  ego_pos :: "real \<times> real \<times> real"
  acceleration :: real
  angular_velocity :: real

text \<open>\<^verbatim>\<open>obs.ego_vehicle_state\<close>: the attributes \<^verbatim>\<open>act\<close> reads.\<close>

record vehicle_state =
  cur_heading :: real
  cur_speed :: real
  cur_position :: "real \<times> real \<times> real"

text \<open>\<^verbatim>\<open>Observation\<close>: the attributes the file reads
  (\<^verbatim>\<open>events.reached_goal\<close> is flattened into the record).\<close>

record observation =
  elapsed_sim_time :: real
  ego_vehicle_state :: vehicle_state
  reached_goal :: bool

type_synonym series = "(real \<times> recorded_state) list"

text \<open>The attributes of \<^verbatim>\<open>ReplayCheckerAgent\<close>; \<^verbatim>\<open>_data\<close> is \<^verbatim>\<open>None\<close> until loaded.\<close>

record agent =
  fixed_timestep_sec :: real
  rounder :: "real \<Rightarrow> real"
  time_offset :: real
  data :: "series option"
  vehicle_id :: string

subsection \<open>\<^verbatim>\<open>ReplayCheckerAgent\<close>\<close>

text \<open>\<^verbatim>\<open>__init__\<close>; \<open>rounder_for_dt\<close> stands for the imported function of that name.\<close>

definition ReplayCheckerAgent :: "(real \<Rightarrow> real \<Rightarrow> real) \<Rightarrow> real \<Rightarrow> agent" where
  "ReplayCheckerAgent rounder_for_dt dt =
     \<lparr>fixed_timestep_sec = dt, rounder = rounder_for_dt dt, time_offset = 0,
      data = None, vehicle_id = ''''\<rparr>"

text \<open>
  \<^verbatim>\<open>load_data_for_vehicle\<close>. The argument \<open>pickled\<close> is what opening and unpickling the
  data file gives: the series, or the exception raised. The two attribute
  assignments happen before the file is opened, so they persist when it fails.
\<close>

definition load_data_for_vehicle ::
    "agent \<Rightarrow> string \<Rightarrow> error + series \<Rightarrow> real \<Rightarrow> error option \<times> agent" where
  "load_data_for_vehicle a vid pickled toff =
     (let a' = a\<lparr>vehicle_id := vid, time_offset := toff\<rparr>
      in case pickled of
           Inl e \<Rightarrow> (Some e, a')
         | Inr d \<Rightarrow> (None, a'\<lparr>data := Some d\<rparr>))"

text \<open>
  \<^verbatim>\<open>math.isclose(a, b, abs_tol=t)\<close> of the standard library on floats, with its
  default \<^verbatim>\<open>rel_tol=1e-09\<close>: equal values are close; otherwise the rounded difference
  \<^verbatim>\<open>fabs(b - a)\<close> is compared with the rounded products \<^verbatim>\<open>fabs(rel_tol * b)\<close> and
  \<^verbatim>\<open>fabs(rel_tol * a)\<close> and with the absolute tolerance. The literal \<^verbatim>\<open>1e-09\<close> is the
  float nearest to it.
\<close>

definition rel_tol :: "(real \<Rightarrow> real) \<Rightarrow> real" where
  "rel_tol fl = fl (1 / 10 ^ 9)"

definition isclose :: "(real \<Rightarrow> real) \<Rightarrow> real \<Rightarrow> real \<Rightarrow> real \<Rightarrow> bool" where
  "isclose fl a b abs_tol =
     (a = b \<or>
      (let diff = \<bar>fl (b - a)\<bar>
       in diff \<le> \<bar>fl (rel_tol fl * b)\<bar> \<or> diff \<le> \<bar>fl (rel_tol fl * a)\<bar> \<or> diff \<le> abs_tol))"

text \<open>
  The four \<^verbatim>\<open>assert math.isclose(...)\<close> of \<^verbatim>\<open>act\<close>, in order. The tolerances
  \<^verbatim>\<open>1e-2\<close> and \<^verbatim>\<open>0.2\<close> are the floats nearest to them; \<^verbatim>\<open>2\<close> is exact. Of the position
  only the components 0 and 1 are compared.
\<close>

definition within_tolerance :: "(real \<Rightarrow> real) \<Rightarrow> vehicle_state \<Rightarrow> recorded_state \<Rightarrow> bool" where
  "within_tolerance fl cur_state expected =
     (isclose fl (cur_heading cur_state) (heading expected) (fl (1 / 100))
      \<and> isclose fl (cur_speed cur_state) (speed expected) (fl (2 / 10))
      \<and> isclose fl (fst (cur_position cur_state)) (fst (ego_pos expected)) 2
      \<and> isclose fl (fst (snd (cur_position cur_state))) (fst (snd (ego_pos expected))) 2)"

text \<open>
  A live value is beyond a limit when it is not the recorded value and the rounded
  difference exceeds the limit and both rounded products of the relative tolerance.
\<close>

definition beyond :: "(real \<Rightarrow> real) \<Rightarrow> real \<Rightarrow> real \<Rightarrow> real \<Rightarrow> bool" where
  "beyond fl cur recd limit =
     (cur \<noteq> recd
      \<and> \<bar>fl (recd - cur)\<bar> > limit
      \<and> \<bar>fl (recd - cur)\<bar> > \<bar>fl (rel_tol fl * recd)\<bar>
      \<and> \<bar>fl (recd - cur)\<bar> > \<bar>fl (rel_tol fl * cur)\<bar>)"

text \<open>
  \<^verbatim>\<open>act\<close>. \<^verbatim>\<open>assert self._data\<close> fails on \<^verbatim>\<open>None\<close> and on an empty dict;
  \<^verbatim>\<open>if not exp\<close> holds for a missing key (a stored record has its keys, so it is
  never falsy). The source's \<^verbatim>\<open>exp\<close> is \<open>expected\<close> here.
\<close>

definition act :: "(real \<Rightarrow> real) \<Rightarrow> agent \<Rightarrow> observation \<Rightarrow> error + real \<times> real" where
  "act fl a obs =
     (case data a of
        None \<Rightarrow> Inl AssertionError
      | Some d \<Rightarrow>
          if d = [] then Inl AssertionError
          else
            let obs_time = rounder a (elapsed_sim_time obs + time_offset a) in
            (case map_of d obs_time of
               None \<Rightarrow> Inr (0, 0)
             | Some expected \<Rightarrow>
                 let cur_state = ego_vehicle_state obs in
                 if \<not> within_tolerance fl cur_state expected then Inl AssertionError
                 else
                   let atime = rounder a (obs_time + fixed_timestep_sec a) in
                   (case map_of d atime of
                      None \<Rightarrow> Inr (0, 0)
                    | Some nxt \<Rightarrow> Inr (acceleration nxt, angular_velocity nxt))))"

subsection \<open>\<^verbatim>\<open>main\<close>: filtering and choosing the vehicles\<close>

text \<open>\<^verbatim>\<open>TrafficHistoryVehicleWindow\<close>: the attributes read (\<open>window_id\<close> is its
  \<^verbatim>\<open>vehicle_id\<close>).\<close>

record VehicleWindow =
  window_id :: string
  start_time :: real
  end_time :: real
  average_speed :: real

text \<open>\<^verbatim>\<open>Mission\<close>: \<open>mission_veh_id\<close> is \<^verbatim>\<open>mission.vehicle_spec.veh_id\<close>,
  \<open>mission_start_time\<close> is \<^verbatim>\<open>mission.start_time\<close>.\<close>

record Mission =
  mission_veh_id :: string
  mission_start_time :: real

text \<open>\<^verbatim>\<open>scenario.traffic_history\<close>: the queries \<^verbatim>\<open>main\<close> makes. The type of the ego
  identifier is left open; \<^verbatim>\<open>vehicle_final_exit_time\<close> may give \<^verbatim>\<open>None\<close>.\<close>

record 'e TrafficHistory =
  dataset_source :: string
  ego_vehicle_id :: "'e option"
  vehicle_final_exit_time :: "string \<Rightarrow> real option"

text \<open>\<^verbatim>\<open>custom_filter\<close>, a closure over \<^verbatim>\<open>exists_at_or_after\<close>.\<close>

definition custom_filter :: "real \<Rightarrow> VehicleWindow list \<Rightarrow> VehicleWindow list" where
  "custom_filter exists_at_or_after vehs =
     (let vehicles = vehs; start_window = 4
      in [v \<leftarrow> vehicles. average_speed v > 3 \<and> \<bar>start_time v - exists_at_or_after\<bar> < start_window])"

text \<open>The dict comprehension \<^verbatim>\<open>{mission.vehicle_spec.veh_id: mission for mission in ...}\<close>
  over the missions the scenario returns.\<close>

definition veh_missions_of :: "Mission list \<Rightarrow> (string \<times> Mission) list" where
  "veh_missions_of missions = foldl (\<lambda>d mission. AList.update (mission_veh_id mission) mission d) [] missions"

text \<open>
  The head of the scenario loop: \<^verbatim>\<open>continue\<close> (here \<open>None\<close>) when there are no
  missions, then the clamping of \<^verbatim>\<open>k\<close>. The result is \<^verbatim>\<open>veh_missions\<close>, \<^verbatim>\<open>k\<close> and
  whether the warning was logged.
\<close>

definition scenario_head :: "int \<Rightarrow> Mission list \<Rightarrow> ((string \<times> Mission) list \<times> int \<times> bool) option" where
  "scenario_head vehicles_to_replace missions =
     (let veh_missions = veh_missions_of missions
      in if veh_missions = [] then None
         else
           let k = vehicles_to_replace
           in if k > int (length veh_missions) then Some (veh_missions, int (length veh_missions), True)
              else Some (veh_missions, k, False))"

text \<open>
  What the selection needs of Python itself:
  \<^item> \<open>str\<close>: \<^verbatim>\<open>str()\<close> on the ego identifier;
  \<^item> \<open>set_iter\<close>: the order in which the set built from a list is iterated;
  \<^item> \<open>random_sample\<close>: \<^verbatim>\<open>random.sample\<close>, threading the generator's state \<open>'g\<close>.
\<close>

type_synonym 'g sampler = "'g \<Rightarrow> string list \<Rightarrow> int \<Rightarrow> error + string list \<times> 'g"

text \<open>The documented behaviour of the two library parameters.\<close>

definition set_iter_contract :: "(string list \<Rightarrow> string list) \<Rightarrow> bool" where
  "set_iter_contract set_iter = (\<forall>ys. set (set_iter ys) = set ys \<and> distinct (set_iter ys))"

definition random_sample_contract :: "'g sampler \<Rightarrow> bool" where
  "random_sample_contract random_sample =
     (\<forall>g population k.
        if 0 \<le> k \<and> k \<le> int (length population)
        then \<exists>idx g'. random_sample g population k = Inr (map (nth population) idx, g')
               \<and> distinct idx \<and> int (length idx) = k \<and> list_all (\<lambda>i. i < length population) idx
        else random_sample g population k = Inl ValueError)"

text \<open>
  Lines 185 to 204 of an episode: the sample is the list of its elements in iteration
  order. \<^verbatim>\<open>if not sample\<close> holds for the empty set only.
\<close>

definition select_sample ::
    "('e \<Rightarrow> string) \<Rightarrow> (string list \<Rightarrow> string list) \<Rightarrow> 'g sampler \<Rightarrow> 'e TrafficHistory \<Rightarrow>
     (string \<times> Mission) list \<Rightarrow> int \<Rightarrow> 'g \<Rightarrow> error + string list \<times> 'g" where
  "select_sample str set_iter random_sample th veh_missions k g =
     (let waymo =
        (if dataset_source th = ''Waymo'' then
           (case ego_vehicle_id th of
              Some waymo_ego_id \<Rightarrow> if k = 1 then Inr [str waymo_ego_id] else Inl AssertionError
            | None \<Rightarrow> Inr [])
         else Inr [])
      in case waymo of
           Inl e \<Rightarrow> Inl e
         | Inr sample \<Rightarrow>
             if sample = [] then
               (case random_sample g (map fst veh_missions) k of
                  Inl e \<Rightarrow> Inl e
                | Inr (chosen, g') \<Rightarrow> Inr (set_iter chosen, g'))
             else Inr (sample, g))"

text \<open>
  From the arguments of \<^verbatim>\<open>main\<close> to the sample of an episode: the assertion on
  \<^verbatim>\<open>vehicles_to_replace\<close>, the head of the scenario loop, the selection. \<open>None\<close> is a
  skipped scenario.
\<close>

definition choose_sample ::
    "('e \<Rightarrow> string) \<Rightarrow> (string list \<Rightarrow> string list) \<Rightarrow> 'g sampler \<Rightarrow> 'e TrafficHistory \<Rightarrow>
     int \<Rightarrow> Mission list \<Rightarrow> 'g \<Rightarrow> (error + string list \<times> 'g) option" where
  "choose_sample str set_iter random_sample th vehicles_to_replace missions g =
     (if \<not> vehicles_to_replace > 0 then Some (Inl AssertionError)
      else
        (case scenario_head vehicles_to_replace missions of
           None \<Rightarrow> None
         | Some (veh_missions, k, warned) \<Rightarrow>
             Some (select_sample str set_iter random_sample th veh_missions k g)))"

subsection \<open>\<^verbatim>\<open>main\<close>: the step cap and the start time\<close>

text \<open>The list comprehension of lines 207 to 210: \<^verbatim>\<open>None / 0.1\<close> is a \<^verbatim>\<open>TypeError\<close>.\<close>

fun final_exit_steps :: "(string \<Rightarrow> real option) \<Rightarrow> string list \<Rightarrow> error + real list" where
  "final_exit_steps vfet [] = Inr []"
| "final_exit_steps vfet (veh_id # rest) =
     (case vfet veh_id of
        None \<Rightarrow> Inl TypeError
      | Some t \<Rightarrow>
          (case final_exit_steps vfet rest of
             Inl e \<Rightarrow> Inl e
           | Inr steps \<Rightarrow> Inr (t / (1 / 10) # steps)))"

text \<open>\<^verbatim>\<open>max\<close> of a list: a \<^verbatim>\<open>ValueError\<close> when it is empty.\<close>

fun py_max :: "real list \<Rightarrow> error + real" where
  "py_max [] = Inl ValueError"
| "py_max (x # xs) = Inr (fold max xs x)"

text \<open>The value assigned to \<^verbatim>\<open>agent_spec.interface.max_episode_steps\<close>.\<close>

definition episode_step_cap :: "(string \<Rightarrow> real option) \<Rightarrow> string list \<Rightarrow> error + real" where
  "episode_step_cap vfet sample =
     (case final_exit_steps vfet sample of
        Inl e \<Rightarrow> Inl e
      | Inr steps \<Rightarrow> py_max steps)"

text \<open>\<^verbatim>\<open>AgentInterface\<close>: the attribute \<^verbatim>\<open>main\<close> assigns.\<close>

record AgentInterface =
  max_episode_steps :: "real option"

text \<open>
  The claimed step cap, in the words of the specification: the maximum over the
  selected vehicles of the final exit time divided by the tick duration \<open>dt\<close>.
\<close>

definition claimed_step_cap :: "real \<Rightarrow> real list \<Rightarrow> real" where
  "claimed_step_cap dt exit_times = Max ((\<lambda>t. t / dt) ` set exit_times)"

text \<open>\<^verbatim>\<open>f"ego-agent-IL-{veh_id}"\<close>.\<close>

definition agent_id_of :: "string \<Rightarrow> string" where
  "agent_id_of veh_id = ''ego-agent-IL-'' @ veh_id"

text \<open>
  The loop of lines 214 to 222 over the sample. \<^verbatim>\<open>not history_start_time\<close> holds for
  \<^verbatim>\<open>None\<close> and for \<^verbatim>\<open>0\<close>; a vehicle without a mission is a \<^verbatim>\<open>KeyError\<close>.
\<close>

record 'i assignment =
  agentid_to_vehid :: "(string \<times> string) list"
  agent_interfaces :: "(string \<times> 'i) list"
  history_start_time :: "real option"

fun assign_loop ::
    "'i \<Rightarrow> (string \<times> Mission) list \<Rightarrow> string list \<Rightarrow> 'i assignment \<Rightarrow> error + 'i assignment" where
  "assign_loop interface veh_missions [] st = Inr st"
| "assign_loop interface veh_missions (veh_id # rest) st =
     (let agent_id = agent_id_of veh_id;
          st1 = st\<lparr>agentid_to_vehid := AList.update agent_id veh_id (agentid_to_vehid st),
                   agent_interfaces := AList.update agent_id interface (agent_interfaces st)\<rparr>
      in case map_of veh_missions veh_id of
           None \<Rightarrow> Inl KeyError
         | Some mission \<Rightarrow>
             if (case history_start_time st1 of
                   None \<Rightarrow> True
                 | Some h \<Rightarrow> h = 0 \<or> mission_start_time mission < h)
             then assign_loop interface veh_missions rest
                    (st1\<lparr>history_start_time := Some (mission_start_time mission)\<rparr>)
             else assign_loop interface veh_missions rest st1)"

text \<open>The start time the loop computes for a sample, from \<^verbatim>\<open>None\<close>.\<close>

definition episode_start_time :: "(string \<times> Mission) list \<Rightarrow> string list \<Rightarrow> error + real option" where
  "episode_start_time veh_missions sample =
     (case assign_loop () veh_missions sample
             \<lparr>agentid_to_vehid = [], agent_interfaces = [], history_start_time = None\<rparr> of
        Inl e \<Rightarrow> Inl e
      | Inr st \<Rightarrow> Inr (history_start_time st))"

text \<open>\<^verbatim>\<open>sim_start_time\<close> of line 244.\<close>

definition sim_start_time :: "real \<Rightarrow> real \<Rightarrow> real" where
  "sim_start_time history_start dt = max 0 (history_start - dt)"

subsection \<open>\<^verbatim>\<open>main\<close>: building the agents\<close>

text \<open>
  The loop of lines 224 to 231 over \<^verbatim>\<open>agent_interfaces.keys()\<close>. \<open>read_data\<close> stands for
  opening and unpickling the data file of a vehicle; an exception of the load ends
  the run.
\<close>

record crew =
  agents :: "(string \<times> agent) list"
  dones :: "(string \<times> bool) list"
  ego_missions :: "(string \<times> Mission) list"

fun build_agents ::
    "(real \<Rightarrow> real \<Rightarrow> real) \<Rightarrow> real \<Rightarrow> (string \<Rightarrow> error + series) \<Rightarrow> (string \<times> string) list \<Rightarrow>
     (string \<times> Mission) list \<Rightarrow> real \<Rightarrow> string list \<Rightarrow> crew \<Rightarrow> error + crew" where
  "build_agents rounder_for_dt dt read_data a2v veh_missions history_start [] c = Inr c"
| "build_agents rounder_for_dt dt read_data a2v veh_missions history_start (agent_id # rest) c =
     (let agent = ReplayCheckerAgent rounder_for_dt dt
      in case map_of a2v agent_id of
           None \<Rightarrow> Inl KeyError
         | Some veh_id \<Rightarrow>
             (case load_data_for_vehicle agent veh_id (read_data veh_id) history_start of
                (Some e, _) \<Rightarrow> Inl e
              | (None, agent') \<Rightarrow>
                  (case map_of veh_missions veh_id of
                     None \<Rightarrow> Inl KeyError
                   | Some mission \<Rightarrow>
                       build_agents rounder_for_dt dt read_data a2v veh_missions history_start rest
                         (c\<lparr>agents := AList.update agent_id agent' (agents c),
                            dones := AList.update agent_id False (dones c),
                            ego_missions := AList.update agent_id mission (ego_missions c)\<rparr>))))"

subsection \<open>\<^verbatim>\<open>main\<close>: the simulation loop\<close>

type_synonym action = "real \<times> real"

text \<open>The dict comprehension of lines 250 to 253: one \<^verbatim>\<open>act\<close> per observation.\<close>

fun gather_actions ::
    "(real \<Rightarrow> real) \<Rightarrow> (string \<times> agent) list \<Rightarrow> (string \<times> observation) list \<Rightarrow>
     (string \<times> action) list \<Rightarrow> error + (string \<times> action) list" where
  "gather_actions fl ags [] acts = Inr acts"
| "gather_actions fl ags ((agent_id, agent_obs) # rest) acts =
     (case map_of ags agent_id of
        None \<Rightarrow> Inl KeyError
      | Some ag \<Rightarrow>
          (case act fl ag agent_obs of
             Inl e \<Rightarrow> Inl e
           | Inr u \<Rightarrow> gather_actions fl ags rest (AList.update agent_id u acts)))"

text \<open>
  The loop of lines 261 to 281 over \<^verbatim>\<open>agents.keys()\<close>: the observation of an agent that
  is done is read (a \<^verbatim>\<open>KeyError\<close> when it is missing) and deleted.
\<close>

fun remove_done ::
    "string list \<Rightarrow> (string \<times> bool) list \<Rightarrow> (string \<times> observation) list \<Rightarrow>
     error + (string \<times> observation) list" where
  "remove_done [] dns observations = Inr observations"
| "remove_done (agent_id # rest) dns observations =
     (if (case map_of dns agent_id of None \<Rightarrow> False | Some d \<Rightarrow> d) then
        (case map_of observations agent_id of
           None \<Rightarrow> Inl KeyError
         | Some ob \<Rightarrow> remove_done rest dns (AList.delete agent_id observations))
      else remove_done rest dns observations)"

text \<open>
  The state of the loop is the simulator's state, \<^verbatim>\<open>observations\<close> and \<^verbatim>\<open>dones\<close>;
  \<open>step\<close> stands for \<^verbatim>\<open>smarts.step\<close> (the rewards and infos it returns are not read).
\<close>

type_synonym 'sim loop_state = "'sim \<times> (string \<times> observation) list \<times> (string \<times> bool) list"

type_synonym 'sim stepper =
  "'sim \<Rightarrow> (string \<times> action) list \<Rightarrow> 'sim \<times> (string \<times> observation) list \<times> (string \<times> bool) list"

text \<open>\<^verbatim>\<open>not all(done for done in dones.values())\<close>.\<close>

definition loop_condition :: "(string \<times> bool) list \<Rightarrow> bool" where
  "loop_condition dns = (\<not> list_all (\<lambda>d. d) (map snd dns))"

text \<open>One pass through the body of the \<^verbatim>\<open>while\<close>.\<close>

definition loop_body ::
    "(real \<Rightarrow> real) \<Rightarrow> 'sim stepper \<Rightarrow> (string \<times> agent) list \<Rightarrow> 'sim loop_state \<Rightarrow>
     error + 'sim loop_state" where
  "loop_body fl step ags st =
     (case st of (sim, observations, dns) \<Rightarrow>
        (case gather_actions fl ags observations [] of
           Inl e \<Rightarrow> Inl e
         | Inr actions \<Rightarrow>
             (case step sim actions of (sim', observations', dns') \<Rightarrow>
                (case remove_done (map fst ags) dns' observations' of
                   Inl e \<Rightarrow> Inl e
                 | Inr observations'' \<Rightarrow> Inr (sim', observations'', dns')))))"

text \<open>
  The \<^verbatim>\<open>while\<close> loop. It need not end: the result is \<open>None\<close> when it runs forever,
  \<open>Some (Inl e)\<close> when an exception leaves it, \<open>Some (Inr st)\<close> when its condition
  becomes false in state \<open>st\<close>.
\<close>

partial_function (option) simulation_loop ::
    "(real \<Rightarrow> real) \<Rightarrow> 'sim stepper \<Rightarrow> (string \<times> agent) list \<Rightarrow> 'sim loop_state \<Rightarrow>
     (error + 'sim loop_state) option" where
  "simulation_loop fl step ags st =
     (if loop_condition (snd (snd st)) then
        (case loop_body fl step ags st of
           Inl e \<Rightarrow> Some (Inl e)
         | Inr st' \<Rightarrow> simulation_loop fl step ags st')
      else Some (Inr st))"

subsection \<open>\<^verbatim>\<open>main\<close>: one episode\<close>

text \<open>
  The simulator as \<^verbatim>\<open>main\<close> uses it: \<^verbatim>\<open>smarts.fixed_timestep_sec\<close>,
  \<^verbatim>\<open>smarts.reset\<close> (after \<^verbatim>\<open>switch_ego_agents\<close> and \<^verbatim>\<open>set_ego_missions\<close>, whose
  arguments it is given), \<^verbatim>\<open>smarts.step\<close> and \<^verbatim>\<open>smarts.elapsed_sim_time\<close>.
\<close>

record 'sim simulator =
  sim_timestep :: real
  sim_reset ::
    "(string \<times> AgentInterface) list \<Rightarrow> (string \<times> Mission) list \<Rightarrow> real \<Rightarrow>
     'sim \<times> (string \<times> observation) list"
  sim_step :: "'sim stepper"
  sim_elapsed :: "'sim \<Rightarrow> real"

text \<open>
  The body of the episode loop, lines 176 to 281, for the \<^verbatim>\<open>veh_missions\<close> and \<^verbatim>\<open>k\<close>
  of the scenario. \<^verbatim>\<open>history_start_time\<close> is still \<^verbatim>\<open>None\<close> after the loop for an
  empty sample only, and then \<^verbatim>\<open>None - smarts.fixed_timestep_sec\<close> is a \<^verbatim>\<open>TypeError\<close>.
  The result also holds the state of the random generator for the next episode.
\<close>

definition episode ::
    "(real \<Rightarrow> real) \<Rightarrow> ('e \<Rightarrow> string) \<Rightarrow> (string list \<Rightarrow> string list) \<Rightarrow> 'g sampler \<Rightarrow>
     (real \<Rightarrow> real \<Rightarrow> real) \<Rightarrow> (string \<Rightarrow> error + series) \<Rightarrow> 'sim simulator \<Rightarrow>
     'e TrafficHistory \<Rightarrow> (string \<times> Mission) list \<Rightarrow> int \<Rightarrow> 'g \<Rightarrow>
     (error + 'sim loop_state \<times> 'g) option" where
  "episode fl str set_iter random_sample rounder_for_dt read_data smarts th veh_missions k g =
     (case select_sample str set_iter random_sample th veh_missions k g of
        Inl e \<Rightarrow> Some (Inl e)
      | Inr (sample, g') \<Rightarrow>
          (case episode_step_cap (vehicle_final_exit_time th) sample of
             Inl e \<Rightarrow> Some (Inl e)
           | Inr cap \<Rightarrow>
               (case assign_loop \<lparr>max_episode_steps = Some cap\<rparr> veh_missions sample
                       \<lparr>agentid_to_vehid = [], agent_interfaces = [], history_start_time = None\<rparr> of
                  Inl e \<Rightarrow> Some (Inl e)
                | Inr asg \<Rightarrow>
                    (case history_start_time asg of
                       None \<Rightarrow> Some (Inl TypeError)
                     | Some history_start \<Rightarrow>
                         (case build_agents rounder_for_dt (sim_timestep smarts) read_data
                                 (agentid_to_vehid asg) veh_missions history_start
                                 (map fst (agent_interfaces asg))
                                 \<lparr>agents = [], dones = [], ego_missions = []\<rparr> of
                            Inl e \<Rightarrow> Some (Inl e)
                          | Inr c \<Rightarrow>
                              (case sim_reset smarts (agent_interfaces asg) (ego_missions c)
                                      (sim_start_time history_start (sim_timestep smarts)) of
                                 (sim, observations) \<Rightarrow>
                                   if \<not> (sim_elapsed smarts sim = sim_timestep smarts
                                         \<or> isclose fl (sim_elapsed smarts sim) history_start 0)
                                   then Some (Inl AssertionError)
                                   else
                                     (case simulation_loop fl (sim_step smarts) (agents c)
                                             (sim, observations, dones c) of
                                        None \<Rightarrow> None
                                      | Some (Inl e) \<Rightarrow> Some (Inl e)
                                      | Some (Inr st) \<Rightarrow> Some (Inr (st, g')))))))))"

subsection \<open>Concrete inputs\<close>

text \<open>
  A stand-in for \<^verbatim>\<open>rounder_for_dt(0.1)\<close> in the examples: rounding to one decimal
  place.
\<close>

definition one_decimal :: "real \<Rightarrow> real \<Rightarrow> real" where
  "one_decimal dt t = of_int \<lfloor>t * 10 + 1 / 2\<rfloor> / 10"

text \<open>
  The rounding of the examples: none. The examples reach \<^verbatim>\<open>math.isclose\<close> only with
  equal arguments, with a float literal against 0, or with small integers whose
  differences are floats, and once with operands whose comparison (3 against
  \<open>1e-9 * 4000000000\<close>) no rounding can change.
\<close>

definition no_rounding :: "real \<Rightarrow> real" where
  "no_rounding x = x"

text \<open>An agent built for the timestep \<open>0.1\<close> and loaded for a vehicle at start time 40.\<close>

definition agent_for :: "string \<Rightarrow> series \<Rightarrow> agent" where
  "agent_for vid d =
     snd (load_data_for_vehicle (ReplayCheckerAgent one_decimal (1 / 10)) vid (Inr d) 40)"

definition loaded_agent :: "series \<Rightarrow> agent" where
  "loaded_agent d = agent_for ''7'' d"

definition record_401 :: recorded_state where
  "record_401 = \<lparr>heading = 1, speed = 10, ego_pos = (100, 50, 0),
                 acceleration = 1 / 2, angular_velocity = 0\<rparr>"

definition record_402 :: recorded_state where
  "record_402 = \<lparr>heading = 1, speed = 10, ego_pos = (101, 50, 0),
                 acceleration = 1 / 4, angular_velocity = 1 / 8\<rparr>"

definition example_series :: series where
  "example_series = [(401 / 10, record_401), (402 / 10, record_402)]"

definition example_obs :: "real \<Rightarrow> vehicle_state \<Rightarrow> observation" where
  "example_obs t s = \<lparr>elapsed_sim_time = t, ego_vehicle_state = s, reached_goal = False\<rparr>"

text \<open>The live state that equals a record, and a live state unlike any record.\<close>

definition state_of :: "recorded_state \<Rightarrow> vehicle_state" where
  "state_of r = \<lparr>cur_heading = heading r, cur_speed = speed r, cur_position = ego_pos r\<rparr>"

definition stray_state :: vehicle_state where
  "stray_state = \<lparr>cur_heading = 3, cur_speed = 0, cur_position = (0, 0, 0)\<rparr>"

text \<open>
  A record at rest with heading 0; a live state whose heading and speed are the
  tolerance literals and whose position is two units off in both compared
  components; a live state whose heading is the literal \<^verbatim>\<open>0.02\<close>; and a live state
  that is a hundred units off in the third component of the position only.
\<close>

definition limit_record :: recorded_state where
  "limit_record = \<lparr>heading = 0, speed = 0, ego_pos = (100, 50, 0),
                   acceleration = 1 / 2, angular_velocity = 0\<rparr>"

definition limit_series :: series where
  "limit_series = [(401 / 10, limit_record)]"

definition state_at_limits :: "(real \<Rightarrow> real) \<Rightarrow> vehicle_state" where
  "state_at_limits fl =
     \<lparr>cur_heading = fl (1 / 100), cur_speed = fl (2 / 10), cur_position = (102, 48, 0)\<rparr>"

definition state_off_heading :: "(real \<Rightarrow> real) \<Rightarrow> vehicle_state" where
  "state_off_heading fl = \<lparr>cur_heading = fl (2 / 100), cur_speed = 0, cur_position = (100, 50, 0)\<rparr>"

definition state_high :: vehicle_state where
  "state_high = \<lparr>cur_heading = 0, cur_speed = 0, cur_position = (100, 50, 100)\<rparr>"

text \<open>A record far from the origin, and a live state three units away from it.\<close>

definition far_record :: recorded_state where
  "far_record = \<lparr>heading = 1, speed = 10, ego_pos = (4000000000, 50, 0),
                 acceleration = 1 / 2, angular_velocity = 0\<rparr>"

definition far_series :: series where
  "far_series = [(401 / 10, far_record)]"

definition far_state :: vehicle_state where
  "far_state = \<lparr>cur_heading = 1, cur_speed = 10, cur_position = (4000000003, 50, 0)\<rparr>"

text \<open>Missions, traffic histories and stand-ins for the library parameters:
  \<open>first_k\<close> samples the first \<open>k\<close> elements and counts the draws in its state.\<close>

definition mission_at :: "string \<Rightarrow> real \<Rightarrow> Mission" where
  "mission_at v t = \<lparr>mission_veh_id = v, mission_start_time = t\<rparr>"

definition waymo_history :: "string TrafficHistory" where
  "waymo_history = \<lparr>dataset_source = ''Waymo'', ego_vehicle_id = Some ''7'',
                     vehicle_final_exit_time = (\<lambda>v. Some 10)\<rparr>"

definition ngsim_history :: "string TrafficHistory" where
  "ngsim_history = \<lparr>dataset_source = ''NGSIM'', ego_vehicle_id = None,
                     vehicle_final_exit_time = (\<lambda>v. Some 10)\<rparr>"

definition first_k :: "nat sampler" where
  "first_k g population k =
     (if 0 \<le> k \<and> k \<le> int (length population) then Inr (take (nat k) population, Suc g)
      else Inl ValueError)"

text \<open>
  A simulator for two agents whose state counts the ticks. Each observation shows the
  vehicle where its record has it. The agent of vehicle 7 is done at the first tick,
  the agent of vehicle 8 at the second; an agent that was done before is no longer
  reported.
\<close>

definition example_step :: "nat stepper" where
  "example_step sim actions =
     (if sim = 0 then
        (Suc 0,
         [(''ego-agent-IL-7'', example_obs (2 / 10) (state_of record_402)),
          (''ego-agent-IL-8'', example_obs (2 / 10) (state_of record_402))],
         [(''ego-agent-IL-7'', True), (''ego-agent-IL-8'', False)])
      else
        (Suc sim,
         [(''ego-agent-IL-8'', example_obs (3 / 10) (state_of record_402))],
         [(''ego-agent-IL-8'', True)]))"

definition example_start :: "nat loop_state" where
  "example_start =
     (0,
      [(''ego-agent-IL-7'', example_obs (1 / 10) (state_of record_401)),
       (''ego-agent-IL-8'', example_obs (1 / 10) (state_of record_401))],
      [(''ego-agent-IL-7'', False), (''ego-agent-IL-8'', False)])"

definition example_agents :: "(string \<times> agent) list" where
  "example_agents =
     [(''ego-agent-IL-7'', agent_for ''7'' example_series),
      (''ego-agent-IL-8'', agent_for ''8'' example_series)]"

definition example_smarts :: "nat simulator" where
  "example_smarts =
     \<lparr>sim_timestep = 1 / 10,
      sim_reset = (\<lambda>interfaces missions start.
                     (0,
                      [(''ego-agent-IL-7'', example_obs (1 / 10) (state_of record_401)),
                       (''ego-agent-IL-8'', example_obs (1 / 10) (state_of record_401))])),
      sim_step = example_step,
      sim_elapsed = (\<lambda>sim. real (Suc sim) / 10)\<rparr>"

lemmas example_defs =
  act_def loaded_agent_def agent_for_def load_data_for_vehicle_def ReplayCheckerAgent_def
  one_decimal_def example_series_def record_401_def record_402_def example_obs_def
  state_of_def stray_state_def within_tolerance_def isclose_def rel_tol_def no_rounding_def

section \<open>Properties of the agent\<close>

lemma isclose_same: "isclose fl a a abs_tol"
  by (simp add: isclose_def)

lemma within_tolerance_same: "within_tolerance fl (state_of r) r"
  by (simp add: within_tolerance_def state_of_def isclose_same)

lemma isclose_within: "\<bar>fl (b - a)\<bar> \<le> abs_tol \<Longrightarrow> isclose fl a b abs_tol"
  by (simp add: isclose_def Let_def)

lemma isclose_iff_not_beyond: "isclose fl a b abs_tol \<longleftrightarrow> \<not> beyond fl a b abs_tol"
  by (auto simp: isclose_def beyond_def Let_def not_less)

text \<open>
  Claim C10. Calling \<^verbatim>\<open>act\<close> while \<^verbatim>\<open>_data\<close> is \<^verbatim>\<open>None\<close> (a fresh agent, or one whose
  load failed) or an empty mapping raises an \<^verbatim>\<open>AssertionError\<close>; whenever \<^verbatim>\<open>act\<close>
  returns a control input, neutral or not, the loaded series is non-empty.
\<close>

theorem act_without_data_raises:
  "(data a = None \<or> data a = Some [] \<longrightarrow> act fl a obs = Inl AssertionError)
   \<and> act fl (ReplayCheckerAgent rounder_for_dt dt) obs = Inl AssertionError
   \<and> act fl (snd (load_data_for_vehicle (ReplayCheckerAgent rounder_for_dt dt) vid (Inl e) toff)) obs
       = Inl AssertionError
   \<and> act fl (snd (load_data_for_vehicle a vid (Inr []) toff)) obs = Inl AssertionError
   \<and> (act fl a obs = Inr u \<longrightarrow> (\<exists>d. data a = Some d \<and> d \<noteq> []))"
  by (auto simp: act_def ReplayCheckerAgent_def load_data_for_vehicle_def
           split: option.splits if_splits)

theorem act_without_data_raises_witness:
  "data (ReplayCheckerAgent one_decimal (1 / 10)) = None
   \<and> act no_rounding (ReplayCheckerAgent one_decimal (1 / 10)) (example_obs (1 / 10) stray_state)
       = Inl AssertionError
   \<and> act no_rounding (loaded_agent example_series) (example_obs (5 / 10) stray_state) = Inr (0, 0)
   \<and> (\<exists>d. data (loaded_agent example_series) = Some d \<and> d \<noteq> [])"
proof -
  have none: "data (ReplayCheckerAgent one_decimal (1 / 10)) = None"
    by (simp add: ReplayCheckerAgent_def)
  have neutral: "act no_rounding (loaded_agent example_series) (example_obs (5 / 10) stray_state)
      = Inr (0, 0)"
    by (simp add: example_defs)
  from none
    act_without_data_raises [where a = "ReplayCheckerAgent one_decimal (1 / 10)"
      and obs = "example_obs (1 / 10) stray_state" and fl = no_rounding]
  have "act no_rounding (ReplayCheckerAgent one_decimal (1 / 10)) (example_obs (1 / 10) stray_state)
          = Inl AssertionError"
    by blast
  moreover from neutral
    act_without_data_raises [where a = "loaded_agent example_series"
      and obs = "example_obs (5 / 10) stray_state" and fl = no_rounding and u = "(0, 0)"]
  have "\<exists>d. data (loaded_agent example_series) = Some d \<and> d \<noteq> []"
    by blast
  ultimately show ?thesis using none neutral by blast
qed

text \<open>
  Claim C6, amended. When the loaded series is non-empty and has no record at the
  quantized time key of the observation, \<^verbatim>\<open>act\<close> returns the neutral control input
  \<open>(0, 0)\<close>, whatever the live state is: no tolerance assertion is made.
\<close>

theorem act_neutral_on_missing_key:
  assumes "data a = Some d" and "d \<noteq> []"
    and "map_of d (rounder a (elapsed_sim_time obs + time_offset a)) = None"
  shows "act fl a obs = Inr (0, 0) \<and> (\<forall>s. act fl a (obs\<lparr>ego_vehicle_state := s\<rparr>) = Inr (0, 0))"
  using assms by (simp add: act_def Let_def)

theorem act_neutral_on_missing_key_witness:
  "data (loaded_agent example_series) = Some example_series
   \<and> example_series \<noteq> []
   \<and> map_of example_series
        (rounder (loaded_agent example_series)
           (elapsed_sim_time (example_obs (5 / 10) stray_state)
            + time_offset (loaded_agent example_series))) = None
   \<and> act no_rounding (loaded_agent example_series) (example_obs (5 / 10) stray_state) = Inr (0, 0)"
proof -
  have h1: "data (loaded_agent example_series) = Some example_series"
    by (simp add: example_defs)
  have h2: "example_series \<noteq> []"
    by (simp add: example_series_def)
  have h3: "map_of example_series
        (rounder (loaded_agent example_series)
           (elapsed_sim_time (example_obs (5 / 10) stray_state)
            + time_offset (loaded_agent example_series))) = None"
    by (simp add: example_defs)
  from act_neutral_on_missing_key [OF h1 h2 h3, of no_rounding] h1 h2 h3 show ?thesis
    by blast
qed

text \<open>
  The claim as stated fails for a loaded series that is empty: every key is missing
  from it, and \<^verbatim>\<open>act\<close> raises instead of returning the neutral input.
\<close>

theorem act_missing_key_in_empty_series:
  "data (loaded_agent []) = Some []
   \<and> map_of ([] :: series)
        (rounder (loaded_agent [])
           (elapsed_sim_time (example_obs (1 / 10) stray_state) + time_offset (loaded_agent [])))
       = None
   \<and> act no_rounding (loaded_agent []) (example_obs (1 / 10) stray_state) = Inl AssertionError"
  by (simp add: example_defs)

lemma act_raises_iff:
  assumes "data a = Some d"
    and "map_of d (rounder a (elapsed_sim_time obs + time_offset a)) = Some r"
  shows "act fl a obs = Inl AssertionError \<longleftrightarrow> \<not> within_tolerance fl (ego_vehicle_state obs) r"
proof -
  from assms have "d \<noteq> []" by auto
  with assms show ?thesis by (simp add: act_def Let_def split: option.splits)
qed

lemma within_tolerance_limits:
  assumes "\<bar>fl (heading r - cur_heading s)\<bar> \<le> fl (1 / 100)"
    and "\<bar>fl (speed r - cur_speed s)\<bar> \<le> fl (2 / 10)"
    and "\<bar>fl (fst (ego_pos r) - fst (cur_position s))\<bar> \<le> 2"
    and "\<bar>fl (fst (snd (ego_pos r)) - fst (snd (cur_position s)))\<bar> \<le> 2"
  shows "within_tolerance fl s r"
  using assms by (simp add: within_tolerance_def isclose_within)

text \<open>
  Claim C7, amended. For every observation with a matching recorded record,
  \<^verbatim>\<open>act\<close> raises no assertion for a live state whose differences from the record, as
  \<^verbatim>\<open>math.isclose\<close> computes them in float arithmetic, are at most the float \<^verbatim>\<open>1e-2\<close>
  in heading, the float \<^verbatim>\<open>0.2\<close> in speed and \<open>2\<close> in each of the position components 0
  and 1, the limits themselves included. It raises the assertion exactly when one of
  these four values is not the recorded one and its computed difference exceeds
  both its limit and the two computed products of the float \<^verbatim>\<open>1e-09\<close> with the live
  and with the recorded value (the default relative tolerance of \<^verbatim>\<open>math.isclose\<close>).
  The third position component is not compared.
\<close>

theorem act_tolerance_band:
  assumes "data a = Some d"
    and "map_of d (rounder a (elapsed_sim_time obs + time_offset a)) = Some r"
  shows "(\<bar>fl (heading r - cur_heading (ego_vehicle_state obs))\<bar> \<le> fl (1 / 100)
          \<and> \<bar>fl (speed r - cur_speed (ego_vehicle_state obs))\<bar> \<le> fl (2 / 10)
          \<and> \<bar>fl (fst (ego_pos r) - fst (cur_position (ego_vehicle_state obs)))\<bar> \<le> 2
          \<and> \<bar>fl (fst (snd (ego_pos r)) - fst (snd (cur_position (ego_vehicle_state obs))))\<bar> \<le> 2
          \<longrightarrow> act fl a obs \<noteq> Inl AssertionError)
       \<and> (act fl a obs = Inl AssertionError \<longleftrightarrow>
            beyond fl (cur_heading (ego_vehicle_state obs)) (heading r) (fl (1 / 100))
            \<or> beyond fl (cur_speed (ego_vehicle_state obs)) (speed r) (fl (2 / 10))
            \<or> beyond fl (fst (cur_position (ego_vehicle_state obs))) (fst (ego_pos r)) 2
            \<or> beyond fl (fst (snd (cur_position (ego_vehicle_state obs)))) (fst (snd (ego_pos r))) 2)
       \<and> (\<forall>z. act fl a
                 (obs\<lparr>ego_vehicle_state := (ego_vehicle_state obs)
                        \<lparr>cur_position := (fst (cur_position (ego_vehicle_state obs)),
                                           fst (snd (cur_position (ego_vehicle_state obs))), z)\<rparr>\<rparr>)
               = act fl a obs)"
proof -
  let ?s = "ego_vehicle_state obs"
  from assms have ne: "d \<noteq> []" by auto
  have raises: "act fl a obs = Inl AssertionError \<longleftrightarrow> \<not> within_tolerance fl ?s r"
    by (rule act_raises_iff [OF assms])
  have tol: "within_tolerance fl ?s r \<longleftrightarrow>
      \<not> (beyond fl (cur_heading ?s) (heading r) (fl (1 / 100))
         \<or> beyond fl (cur_speed ?s) (speed r) (fl (2 / 10))
         \<or> beyond fl (fst (cur_position ?s)) (fst (ego_pos r)) 2
         \<or> beyond fl (fst (snd (cur_position ?s))) (fst (snd (ego_pos r))) 2)"
    by (simp add: within_tolerance_def isclose_iff_not_beyond)
  have accept: "\<bar>fl (heading r - cur_heading ?s)\<bar> \<le> fl (1 / 100)
          \<and> \<bar>fl (speed r - cur_speed ?s)\<bar> \<le> fl (2 / 10)
          \<and> \<bar>fl (fst (ego_pos r) - fst (cur_position ?s))\<bar> \<le> 2
          \<and> \<bar>fl (fst (snd (ego_pos r)) - fst (snd (cur_position ?s)))\<bar> \<le> 2
          \<longrightarrow> act fl a obs \<noteq> Inl AssertionError"
    unfolding raises by (blast intro: within_tolerance_limits)
  have third: "act fl a
      (obs\<lparr>ego_vehicle_state := ?s\<lparr>cur_position :=
          (fst (cur_position ?s), fst (snd (cur_position ?s)), z)\<rparr>\<rparr>) = act fl a obs" for z
    using assms ne by (simp add: act_def within_tolerance_def Let_def)
  from accept raises tol third show ?thesis by blast
qed

theorem act_tolerance_band_witness:
  "data (loaded_agent limit_series) = Some limit_series
   \<and> map_of limit_series
        (rounder (loaded_agent limit_series) (1 / 10 + time_offset (loaded_agent limit_series)))
       = Some limit_record
   \<and> \<bar>no_rounding (heading limit_record - cur_heading (state_at_limits no_rounding))\<bar>
       = no_rounding (1 / 100)
   \<and> \<bar>no_rounding (speed limit_record - cur_speed (state_at_limits no_rounding))\<bar>
       = no_rounding (2 / 10)
   \<and> \<bar>no_rounding (fst (ego_pos limit_record) - fst (cur_position (state_at_limits no_rounding)))\<bar>
       = 2
   \<and> \<bar>no_rounding (fst (snd (ego_pos limit_record))
                     - fst (snd (cur_position (state_at_limits no_rounding))))\<bar> = 2
   \<and> act no_rounding (loaded_agent limit_series)
        (example_obs (1 / 10) (state_at_limits no_rounding)) \<noteq> Inl AssertionError
   \<and> beyond no_rounding (cur_heading (state_off_heading no_rounding)) (heading limit_record)
        (no_rounding (1 / 100))
   \<and> act no_rounding (loaded_agent limit_series)
        (example_obs (1 / 10) (state_off_heading no_rounding)) = Inl AssertionError"
proof -
  let ?a = "loaded_agent limit_series"
  have h1: "data ?a = Some limit_series"
    by (simp add: example_defs)
  have key: "map_of limit_series (rounder ?a (1 / 10 + time_offset ?a)) = Some limit_record"
    by (simp add: example_defs limit_series_def)
  have h2: "map_of limit_series
              (rounder ?a (elapsed_sim_time (example_obs (1 / 10) s) + time_offset ?a))
            = Some limit_record" for s
    using key by (simp add: example_obs_def)
  have lim: "\<bar>no_rounding (heading limit_record - cur_heading (state_at_limits no_rounding))\<bar>
         = no_rounding (1 / 100)
       \<and> \<bar>no_rounding (speed limit_record - cur_speed (state_at_limits no_rounding))\<bar>
         = no_rounding (2 / 10)
       \<and> \<bar>no_rounding (fst (ego_pos limit_record)
                         - fst (cur_position (state_at_limits no_rounding)))\<bar> = 2
       \<and> \<bar>no_rounding (fst (snd (ego_pos limit_record))
                         - fst (snd (cur_position (state_at_limits no_rounding))))\<bar> = 2"
    by (simp add: state_at_limits_def limit_record_def no_rounding_def)
  have off: "beyond no_rounding (cur_heading (state_off_heading no_rounding)) (heading limit_record)
        (no_rounding (1 / 100))"
    by (simp add: beyond_def rel_tol_def state_off_heading_def limit_record_def no_rounding_def)
  note band = act_tolerance_band [OF h1 h2, where fl = no_rounding]
  from band [of "state_at_limits no_rounding", THEN conjunct1] lim
  have "act no_rounding ?a (example_obs (1 / 10) (state_at_limits no_rounding)) \<noteq> Inl AssertionError"
    by (simp add: example_obs_def)
  moreover from band [of "state_off_heading no_rounding", THEN conjunct2, THEN conjunct1] off
  have "act no_rounding ?a (example_obs (1 / 10) (state_off_heading no_rounding)) = Inl AssertionError"
    by (simp add: example_obs_def)
  ultimately show ?thesis using h1 key lim off by blast
qed

text \<open>
  The live state at the float limits is accepted under every rounding that leaves
  floats as they are, is symmetric about 0, and rounds the two tolerance literals to
  floats that are not negative.
\<close>

lemma act_accepts_float_limits:
  assumes idem: "\<And>x. fl (fl x) = fl x" and odd: "\<And>x. fl (- x) = - fl x"
    and two: "fl 2 = 2" and pos: "0 \<le> fl (1 / 100)" "0 \<le> fl (2 / 10)"
  shows "act fl (loaded_agent limit_series) (example_obs (1 / 10) (state_at_limits fl))
           \<noteq> Inl AssertionError"
proof -
  let ?a = "loaded_agent limit_series"
  have h1: "data ?a = Some limit_series"
    by (simp add: example_defs)
  have h2: "map_of limit_series
              (rounder ?a (elapsed_sim_time (example_obs (1 / 10) (state_at_limits fl))
                           + time_offset ?a))
            = Some limit_record"
    by (simp add: example_defs limit_series_def)
  have "fl (- fl (1 / 100)) = - fl (1 / 100)" "fl (- fl (2 / 10)) = - fl (2 / 10)"
    "fl (- 2) = - 2"
    using idem odd two by simp_all
  with pos have "within_tolerance fl (state_at_limits fl) limit_record"
    using two by (intro within_tolerance_limits) (simp_all add: limit_record_def state_at_limits_def)
  with act_raises_iff [OF h1 h2, of fl] show ?thesis
    by (simp add: example_obs_def)
qed

text \<open>
  The claim as stated fails in two ways. Far from the origin: the recorded position
  has \<open>x = 4000000000\<close>, the live one is three units away, more than the limit \<open>2\<close>,
  and \<^verbatim>\<open>act\<close> raises nothing, since \<open>1e-9 * 4000000000\<close> is \<open>4\<close>, more than \<open>3\<close>. In the
  third component: the live position is a hundred units above the recorded one,
  and \<^verbatim>\<open>act\<close> raises nothing, since only the components 0 and 1 are compared.
\<close>

theorem act_accepts_beyond_limit:
  "map_of far_series
     (rounder (loaded_agent far_series)
        (elapsed_sim_time (example_obs (1 / 10) far_state) + time_offset (loaded_agent far_series)))
    = Some far_record
   \<and> \<bar>fst (ego_pos far_record) - fst (cur_position far_state)\<bar> = 3
   \<and> (2 :: real) < 3
   \<and> act no_rounding (loaded_agent far_series) (example_obs (1 / 10) far_state) = Inr (0, 0)
   \<and> map_of limit_series
        (rounder (loaded_agent limit_series)
           (elapsed_sim_time (example_obs (1 / 10) state_high)
            + time_offset (loaded_agent limit_series)))
       = Some limit_record
   \<and> \<bar>snd (snd (ego_pos limit_record)) - snd (snd (cur_position state_high))\<bar> = 100
   \<and> (2 :: real) < 100
   \<and> act no_rounding (loaded_agent limit_series) (example_obs (1 / 10) state_high) = Inr (0, 0)"
  by (simp add: example_defs far_series_def far_record_def far_state_def
      limit_series_def limit_record_def state_high_def)

text \<open>
  Claim C8. For every observation that passes the tolerance checks (its record is
  present and the live state is accepted), \<^verbatim>\<open>act\<close> returns the acceleration and the
  angular velocity stored at the key \<open>quantize (obs_time + dt)\<close> when that key is present,
  and \<open>(0, 0)\<close> when it is absent.
\<close>

theorem act_returns_next_control:
  assumes "data a = Some d"
    and "obs_time = rounder a (elapsed_sim_time obs + time_offset a)"
    and "map_of d obs_time = Some r"
    and "within_tolerance fl (ego_vehicle_state obs) r"
  shows "act fl a obs =
           (case map_of d (rounder a (obs_time + fixed_timestep_sec a)) of
              None \<Rightarrow> Inr (0, 0)
            | Some nxt \<Rightarrow> Inr (acceleration nxt, angular_velocity nxt))"
proof -
  from assms have "d \<noteq> []" by auto
  with assms show ?thesis by (simp add: act_def Let_def)
qed

theorem act_returns_next_control_witness:
  "data (loaded_agent example_series) = Some example_series
   \<and> map_of example_series (401 / 10) = Some record_401
   \<and> within_tolerance no_rounding (state_of record_401) record_401
   \<and> map_of example_series (402 / 10) = Some record_402
   \<and> act no_rounding (loaded_agent example_series) (example_obs (1 / 10) (state_of record_401))
       = Inr (acceleration record_402, angular_velocity record_402)
   \<and> within_tolerance no_rounding (state_of record_402) record_402
   \<and> map_of example_series (403 / 10) = None
   \<and> act no_rounding (loaded_agent example_series) (example_obs (2 / 10) (state_of record_402))
       = Inr (0, 0)"
proof -
  let ?a = "loaded_agent example_series"
  have h1: "data ?a = Some example_series"
    by (simp add: example_defs)
  have t1: "401 / 10 = rounder ?a (elapsed_sim_time (example_obs (1 / 10) s) + time_offset ?a)" for s
    by (simp add: example_defs)
  have t2: "402 / 10 = rounder ?a (elapsed_sim_time (example_obs (2 / 10) s) + time_offset ?a)" for s
    by (simp add: example_defs)
  have n1: "rounder ?a (401 / 10 + fixed_timestep_sec ?a) = 402 / 10"
    by (simp add: example_defs)
  have n2: "rounder ?a (402 / 10 + fixed_timestep_sec ?a) = 403 / 10"
    by (simp add: example_defs)
  have r1: "map_of example_series (401 / 10) = Some record_401"
    by (simp add: example_series_def)
  have r2: "map_of example_series (402 / 10) = Some record_402"
    by (simp add: example_series_def)
  have r3: "map_of example_series (403 / 10) = None"
    by (simp add: example_series_def)
  have w: "within_tolerance no_rounding (ego_vehicle_state (example_obs t (state_of r))) r" for t r
    by (simp add: example_obs_def within_tolerance_same)
  have "act no_rounding ?a (example_obs (1 / 10) (state_of record_401))
          = Inr (acceleration record_402, angular_velocity record_402)"
    unfolding act_returns_next_control [OF h1 t1 r1 w] n1 r2 by simp
  moreover have "act no_rounding ?a (example_obs (2 / 10) (state_of record_402)) = Inr (0, 0)"
    unfolding act_returns_next_control [OF h1 t2 r2 w] n2 r3 by simp
  ultimately show ?thesis
    using h1 r1 r2 r3 within_tolerance_same by simp
qed

section \<open>Properties of the selection\<close>

text \<open>
  Claim C3. For every collection of vehicle windows and every value of
  \<^verbatim>\<open>exists_at_or_after\<close>, the custom filter returns exactly the windows \<open>v\<close> with
  \<open>average_speed v > 3\<close> and \<open>\<bar>start_time v - exists_at_or_after\<bar> < 4\<close>, in their
  order; of window \<open>A\<close> (start 38, speed 5) and window \<open>B\<close> (start 50, speed 1) with
  \<^verbatim>\<open>exists_at_or_after = 40\<close> it keeps \<open>A\<close> and drops \<open>B\<close>.
\<close>

theorem custom_filter_exact:
  "(v \<in> set (custom_filter exists_at_or_after vehs) \<longleftrightarrow>
      v \<in> set vehs \<and> average_speed v > 3 \<and> \<bar>start_time v - exists_at_or_after\<bar> < 4)
   \<and> subseq (custom_filter exists_at_or_after vehs) vehs
   \<and> custom_filter 40
        [\<lparr>window_id = ''A'', start_time = 38, end_time = ea, average_speed = 5\<rparr>,
         \<lparr>window_id = ''B'', start_time = 50, end_time = eb, average_speed = 1\<rparr>]
       = [\<lparr>window_id = ''A'', start_time = 38, end_time = ea, average_speed = 5\<rparr>]"
  by (simp add: custom_filter_def)

lemma veh_missions_of_snoc:
  "veh_missions_of (ms @ [m]) = AList.update (mission_veh_id m) m (veh_missions_of ms)"
  by (simp add: veh_missions_of_def)

lemma veh_missions_of_keys:
  "distinct (map fst (veh_missions_of ms)) \<and> fst ` set (veh_missions_of ms) = mission_veh_id ` set ms"
proof (induction ms rule: rev_induct)
  case Nil
  then show ?case by (simp add: veh_missions_of_def)
next
  case (snoc m ms)
  then show ?case by (auto simp: veh_missions_of_snoc distinct_update dom_update)
qed

lemma veh_missions_of_nonempty: "ms \<noteq> [] \<Longrightarrow> veh_missions_of ms \<noteq> []"
  by (cases ms rule: rev_cases) (simp_all add: veh_missions_of_snoc)

lemma scenario_head_some:
  assumes "missions \<noteq> []"
  shows "scenario_head vehicles_to_replace missions =
           Some (veh_missions_of missions,
                 min vehicles_to_replace (int (length (veh_missions_of missions))),
                 vehicles_to_replace > int (length (veh_missions_of missions)))"
  using veh_missions_of_nonempty [OF assms] by (simp add: scenario_head_def Let_def min_def)

lemma episode_selection_error:
  assumes "select_sample str set_iter random_sample th veh_missions k g = Inl e"
  shows "episode fl str set_iter random_sample rounder_for_dt read_data smarts th veh_missions k g
           = Some (Inl e)"
  using assms by (simp add: episode_def)

text \<open>
  Claim C4, amended. Whenever the dataset source is \<^verbatim>\<open>Waymo\<close> and an ego vehicle
  identifier is present, the selection either fails with an assertion, precisely
  when the count it is given is not 1, or produces exactly the singleton of that
  identifier, and the state of the random generator is unchanged: nothing is
  sampled. The count it is given is the requested count clamped to the number of
  missions, so for a requested count \<open>vehicles_to_replace > 0\<close> the assertion fails
  precisely when \<open>min vehicles_to_replace (number of missions)\<close> is not 1. A failed
  selection ends the episode before the simulator is reset or stepped, whatever the
  simulator is.
\<close>

theorem waymo_ego_selection:
  assumes "dataset_source th = ''Waymo''" and "ego_vehicle_id th = Some ego"
  shows "select_sample str set_iter random_sample th veh_missions k g
           = (if k = 1 then Inr ([str ego], g) else Inl AssertionError)
       \<and> (0 < vehicles_to_replace \<and> missions \<noteq> [] \<longrightarrow>
            choose_sample str set_iter random_sample th vehicles_to_replace missions g
              = Some (if min vehicles_to_replace (int (length (veh_missions_of missions))) = 1
                      then Inr ([str ego], g) else Inl AssertionError))
       \<and> (k \<noteq> 1 \<longrightarrow>
            episode fl str set_iter random_sample rounder_for_dt read_data smarts th veh_missions k g
              = Some (Inl AssertionError))"
proof -
  have sel: "select_sample str set_iter random_sample th vm k' g
           = (if k' = 1 then Inr ([str ego], g) else Inl AssertionError)" for vm k'
    using assms by (simp add: select_sample_def)
  have "k \<noteq> 1 \<longrightarrow>
          episode fl str set_iter random_sample rounder_for_dt read_data smarts th veh_missions k g
            = Some (Inl AssertionError)"
    by (simp add: sel episode_selection_error)
  then show ?thesis
    by (auto simp: sel choose_sample_def scenario_head_some)
qed

theorem waymo_ego_selection_witness:
  "dataset_source waymo_history = ''Waymo''
   \<and> ego_vehicle_id waymo_history = Some ''7''
   \<and> select_sample (\<lambda>e. e) remdups first_k waymo_history
        (veh_missions_of [mission_at ''7'' 40, mission_at ''8'' 41]) 1 0 = Inr ([''7''], 0)
   \<and> select_sample (\<lambda>e. e) remdups first_k waymo_history
        (veh_missions_of [mission_at ''7'' 40, mission_at ''8'' 41]) 2 0 = Inl AssertionError
   \<and> choose_sample (\<lambda>e. e) remdups first_k waymo_history 1 [mission_at ''7'' 40, mission_at ''8'' 41] 0
       = Some (Inr ([''7''], 0))
   \<and> choose_sample (\<lambda>e. e) remdups first_k waymo_history 2 [mission_at ''7'' 40, mission_at ''8'' 41] 0
       = Some (Inl AssertionError)
   \<and> episode no_rounding (\<lambda>e. e) remdups first_k one_decimal (\<lambda>v. Inr example_series)
        example_smarts
        waymo_history (veh_missions_of [mission_at ''7'' 40, mission_at ''8'' 41]) 2 0
       = Some (Inl AssertionError)"
proof -
  have h1: "dataset_source waymo_history = ''Waymo''"
    and h2: "ego_vehicle_id waymo_history = Some ''7''"
    by (simp_all add: waymo_history_def)
  have len: "int (length (veh_missions_of [mission_at ''7'' 40, mission_at ''8'' 41])) = 2"
    by (simp add: veh_missions_of_def mission_at_def)
  note sel = waymo_ego_selection [OF h1 h2, where str = "\<lambda>e. e" and set_iter = remdups
      and random_sample = first_k and g = 0
      and veh_missions = "veh_missions_of [mission_at ''7'' 40, mission_at ''8'' 41]"
      and missions = "[mission_at ''7'' 40, mission_at ''8'' 41]"
      and rounder_for_dt = one_decimal and read_data = "\<lambda>v. Inr example_series"
      and smarts = example_smarts and fl = no_rounding]
  note one = sel [where k = 1 and vehicles_to_replace = 1]
  note two = sel [where k = 2 and vehicles_to_replace = 2]
  have "select_sample (\<lambda>e. e) remdups first_k waymo_history
        (veh_missions_of [mission_at ''7'' 40, mission_at ''8'' 41]) 1 0 = Inr ([''7''], 0)"
    using one [THEN conjunct1] by simp
  moreover have "select_sample (\<lambda>e. e) remdups first_k waymo_history
        (veh_missions_of [mission_at ''7'' 40, mission_at ''8'' 41]) 2 0 = Inl AssertionError"
    using two [THEN conjunct1] by simp
  moreover have "choose_sample (\<lambda>e. e) remdups first_k waymo_history 1
        [mission_at ''7'' 40, mission_at ''8'' 41] 0 = Some (Inr ([''7''], 0))"
    using one [THEN conjunct2, THEN conjunct1] by (simp add: len)
  moreover have "choose_sample (\<lambda>e. e) remdups first_k waymo_history 2
        [mission_at ''7'' 40, mission_at ''8'' 41] 0 = Some (Inl AssertionError)"
    using two [THEN conjunct2, THEN conjunct1] by (simp add: len)
  moreover have "episode no_rounding (\<lambda>e. e) remdups first_k one_decimal (\<lambda>v. Inr example_series)
        example_smarts
        waymo_history (veh_missions_of [mission_at ''7'' 40, mission_at ''8'' 41]) 2 0
       = Some (Inl AssertionError)"
    using two [THEN conjunct2, THEN conjunct2] by simp
  ultimately show ?thesis using h1 h2 by blast
qed

text \<open>
  The claim as stated fails when the requested count exceeds the number of missions:
  two vehicles are requested, one mission is admissible, the count is clamped to 1
  and the assertion passes.
\<close>

theorem waymo_requested_two:
  "choose_sample (\<lambda>e. e) remdups first_k waymo_history 2 [mission_at ''7'' 40] 0
     = Some (Inr ([''7''], 0))"
  by (simp add: choose_sample_def scenario_head_def veh_missions_of_def select_sample_def
      waymo_history_def mission_at_def)

lemma take_as_nth: "n \<le> length xs \<Longrightarrow> take n xs = map (nth xs) [0..<n]"
  by (metis map_nth take_map take_upt add_0)

lemma first_k_contract: "random_sample_contract first_k"
  unfolding random_sample_contract_def
proof (intro allI)
  fix g :: nat and population :: "string list" and k :: int
  show "if 0 \<le> k \<and> k \<le> int (length population)
        then \<exists>idx g'. first_k g population k = Inr (map (nth population) idx, g')
               \<and> distinct idx \<and> int (length idx) = k \<and> list_all (\<lambda>i. i < length population) idx
        else first_k g population k = Inl ValueError"
  proof (cases "0 \<le> k \<and> k \<le> int (length population)")
    case True
    then have "take (nat k) population = map (nth population) [0..<nat k]"
      by (intro take_as_nth) linarith
    moreover have "distinct [0..<nat k]" "int (length [0..<nat k]) = k"
      "list_all (\<lambda>i. i < length population) [0..<nat k]"
      using True by (auto simp: list_all_iff)
    ultimately show ?thesis using True by (auto simp: first_k_def)
  next
    case False
    then show ?thesis by (auto simp: first_k_def)
  qed
qed

lemma random_sample_contractD:
  assumes "random_sample_contract random_sample"
    and "0 \<le> k" and "k \<le> int (length population)"
  shows "\<exists>idx g'. random_sample g population k = Inr (map (nth population) idx, g')
               \<and> distinct idx \<and> int (length idx) = k \<and> list_all (\<lambda>i. i < length population) idx"
proof -
  from assms(1) have
    "if 0 \<le> k \<and> k \<le> int (length population)
     then \<exists>idx g'. random_sample g population k = Inr (map (nth population) idx, g')
               \<and> distinct idx \<and> int (length idx) = k \<and> list_all (\<lambda>i. i < length population) idx
     else random_sample g population k = Inl ValueError"
    unfolding random_sample_contract_def by blast
  with assms(2,3) show ?thesis by simp
qed

lemma remdups_contract: "set_iter_contract remdups"
  by (simp add: set_iter_contract_def)

text \<open>
  Claim C5. For every non-empty mission mapping and every requested count
  \<open>vehicles_to_replace > 0\<close>, when the dataset is not \<^verbatim>\<open>Waymo\<close> with an ego
  identifier, the sample is a duplicate-free collection of identifiers of the
  mission mapping whose size is \<open>min vehicles_to_replace (number of missions)\<close>; a
  requested count above the number of missions is clamped with a warning, and the
  selection does not fail. \<^verbatim>\<open>random.sample\<close> and the iteration of a set are assumed
  to behave as documented.
\<close>

theorem random_selection:
  assumes "random_sample_contract random_sample" and "set_iter_contract set_iter"
    and "missions \<noteq> []" and "0 < vehicles_to_replace"
    and "\<not> (dataset_source th = ''Waymo'' \<and> ego_vehicle_id th \<noteq> None)"
  shows "\<exists>veh_missions k warned sample g'.
           scenario_head vehicles_to_replace missions = Some (veh_missions, k, warned)
           \<and> fst ` set veh_missions = mission_veh_id ` set missions
           \<and> k = min vehicles_to_replace (int (length veh_missions))
           \<and> warned = (vehicles_to_replace > int (length veh_missions))
           \<and> choose_sample str set_iter random_sample th vehicles_to_replace missions g
               = Some (Inr (sample, g'))
           \<and> set sample \<subseteq> fst ` set veh_missions
           \<and> distinct sample
           \<and> int (length sample) = k
           \<and> int (card (set sample)) = k"
proof -
  let ?vm = "veh_missions_of missions"
  let ?keys = "map fst ?vm"
  let ?k = "min vehicles_to_replace (int (length ?vm))"
  have head: "scenario_head vehicles_to_replace missions
      = Some (?vm, ?k, vehicles_to_replace > int (length ?vm))"
    by (rule scenario_head_some [OF assms(3)])
  have dist: "distinct ?keys" and keys: "fst ` set ?vm = mission_veh_id ` set missions"
    using veh_missions_of_keys [of missions] by auto
  have krange: "0 \<le> ?k \<and> ?k \<le> int (length ?keys)"
    using assms(4) by simp
  from random_sample_contractD [OF assms(1), of ?k ?keys g] krange obtain idx g' where
      rs: "random_sample g ?keys ?k = Inr (map (nth ?keys) idx, g')"
      and idx: "distinct idx" "int (length idx) = ?k" "list_all (\<lambda>i. i < length ?keys) idx"
    by blast
  let ?chosen = "map (nth ?keys) idx"
  have inj: "inj_on (nth ?keys) (set idx)"
    using dist idx(3) by (intro inj_on_nth) (auto simp: list_all_iff)
  have dchosen: "distinct ?chosen"
    using idx(1) inj by (simp add: distinct_map)
  have sub: "set ?chosen \<subseteq> fst ` set ?vm"
    using idx(3) by (auto simp: list_all_iff)
  from assms(2) have si: "set (set_iter ?chosen) = set ?chosen" "distinct (set_iter ?chosen)"
    by (simp_all add: set_iter_contract_def)
  have len: "length (set_iter ?chosen) = length idx"
    using si dchosen by (metis distinct_card length_map)
  have pre: "(if dataset_source th = ''Waymo'' then
           (case ego_vehicle_id th of
              Some waymo_ego_id \<Rightarrow> if ?k = 1 then Inr [str waymo_ego_id] else Inl AssertionError
            | None \<Rightarrow> Inr [])
         else Inr []) = Inr []"
    using assms(5) by (auto split: option.splits)
  have sel: "select_sample str set_iter random_sample th ?vm ?k g = Inr (set_iter ?chosen, g')"
    unfolding select_sample_def pre Let_def using rs by simp
  have ch: "choose_sample str set_iter random_sample th vehicles_to_replace missions g
      = Some (Inr (set_iter ?chosen, g'))"
    using assms(4) by (simp add: choose_sample_def head sel)
  show ?thesis
    using head keys ch si sub len idx(2) distinct_card [OF si(2)] by (intro exI conjI) auto
qed

theorem random_selection_witness:
  "random_sample_contract first_k
   \<and> set_iter_contract remdups
   \<and> [mission_at ''1'' 40, mission_at ''2'' 41, mission_at ''3'' 42] \<noteq> []
   \<and> (0 :: int) < 5
   \<and> \<not> (dataset_source ngsim_history = ''Waymo'' \<and> ego_vehicle_id ngsim_history \<noteq> None)
   \<and> scenario_head 5 [mission_at ''1'' 40, mission_at ''2'' 41, mission_at ''3'' 42]
       = Some (veh_missions_of [mission_at ''1'' 40, mission_at ''2'' 41, mission_at ''3'' 42], 3, True)
   \<and> (\<exists>sample g'.
         choose_sample (\<lambda>e. e) remdups first_k ngsim_history 5
           [mission_at ''1'' 40, mission_at ''2'' 41, mission_at ''3'' 42] (0 :: nat)
           = Some (Inr (sample, g'))
         \<and> distinct sample \<and> int (length sample) = 3 \<and> int (card (set sample)) = 3)"
proof -
  define ms where "ms = [mission_at ''1'' 40, mission_at ''2'' 41, mission_at ''3'' 42]"
  have h3: "ms \<noteq> []" by (simp add: ms_def)
  have h4: "(0 :: int) < 5" by simp
  have h5: "\<not> (dataset_source ngsim_history = ''Waymo'' \<and> ego_vehicle_id ngsim_history \<noteq> None)"
    by (simp add: ngsim_history_def)
  have head: "scenario_head 5 ms = Some (veh_missions_of ms, 3, True)"
    by (simp add: ms_def scenario_head_def veh_missions_of_def mission_at_def)
  from random_selection [OF first_k_contract remdups_contract h3 h4 h5, of "\<lambda>e. e" 0]
  obtain veh_missions k warned sample g' where
    "scenario_head 5 ms = Some (veh_missions, k, warned)"
    "choose_sample (\<lambda>e. e) remdups first_k ngsim_history 5 ms 0 = Some (Inr (sample, g'))"
    "distinct sample" "int (length sample) = k" "int (card (set sample)) = k"
    by (elim exE conjE) (rule that)
  with head have "\<exists>sample g'.
         choose_sample (\<lambda>e. e) remdups first_k ngsim_history 5 ms (0 :: nat) = Some (Inr (sample, g'))
         \<and> distinct sample \<and> int (length sample) = 3 \<and> int (card (set sample)) = 3"
    by auto
  with first_k_contract remdups_contract h3 h4 h5 head show ?thesis
    unfolding ms_def by blast
qed

section \<open>Properties of the step cap and the start time\<close>

lemma final_exit_steps_map:
  "map vfet sample = map Some exits \<Longrightarrow>
   final_exit_steps vfet sample = Inr (map (\<lambda>t. t / (1 / 10)) exits)"
  by (induction sample arbitrary: exits) auto

lemma py_max_Max:
  assumes "xs \<noteq> []"
  shows "py_max xs = Inr (Max (set xs))"
proof (cases xs)
  case Nil
  with assms show ?thesis by simp
next
  case (Cons a list)
  then show ?thesis using Max.set_eq_fold [of a list] by simp
qed

text \<open>The step cap the code computes is the claimed one for the tick duration \<open>0.1\<close>.\<close>

lemma episode_step_cap_tenth:
  assumes "map vfet sample = map Some exits" and "sample \<noteq> []"
  shows "episode_step_cap vfet sample = Inr (claimed_step_cap (1 / 10) exits)"
proof -
  from assms have "exits \<noteq> []" by auto
  then show ?thesis
    using assms
    by (simp add: episode_step_cap_def final_exit_steps_map py_max_Max claimed_step_cap_def)
qed


lemma Min_insert_ge:
  fixes t :: real
  assumes "finite A" and "t \<le> s"
  shows "Min (insert t (insert s A)) = Min (insert t A)"
proof (cases "A = {}")
  case True
  with assms show ?thesis by (simp add: min_def)
next
  case False
  from assms(1) False have 1: "Min (insert s A) = min s (Min A)" by (rule Min.insert)
  from assms(1) False have 2: "Min (insert t A) = min t (Min A)" by (rule Min.insert)
  have 3: "Min (insert t (insert s A)) = min t (Min (insert s A))"
    by (rule Min.insert) (use assms in auto)
  show ?thesis unfolding 3 1 2 using assms(2) by (simp add: min_def)
qed

lemma Min_insert_lt:
  fixes t :: real
  assumes "finite A" and "s < t"
  shows "Min (insert t (insert s A)) = Min (insert s A)"
proof (cases "A = {}")
  case True
  with assms show ?thesis by (simp add: min_def)
next
  case False
  from assms(1) False have 1: "Min (insert s A) = min s (Min A)" by (rule Min.insert)
  have 3: "Min (insert t (insert s A)) = min t (Min (insert s A))"
    by (rule Min.insert) (use assms in auto)
  show ?thesis unfolding 3 1 using assms(2) by (simp add: min_def)
qed

text \<open>
  When no selected mission starts at time 0, the loop computes the minimum start
  time: the start time 0 is the only case it misses.
\<close>

lemma assign_loop_min:
  assumes "map (map_of vm) sample = map Some ms"
    and "0 \<notin> mission_start_time ` set ms"
    and "history_start_time st \<noteq> Some 0"
  shows "\<exists>st'. assign_loop i vm sample st = Inr st'
           \<and> history_start_time st' =
               (case history_start_time st of
                  None \<Rightarrow> if ms = [] then None else Some (Min (mission_start_time ` set ms))
                | Some t \<Rightarrow> Some (Min (insert t (mission_start_time ` set ms))))"
  using assms
proof (induction sample arbitrary: ms st)
  case Nil
  then show ?case by (auto split: option.splits)
next
  case (Cons v rest)
  then obtain m ms' where ms: "ms = m # ms'" and m: "map_of vm v = Some m"
      and rest: "map (map_of vm) rest = map Some ms'"
    by (cases ms) auto
  from Cons.prems ms have nz: "mission_start_time m \<noteq> 0" "0 \<notin> mission_start_time ` set ms'"
    by auto
  let ?st1 = "st\<lparr>agentid_to_vehid := AList.update (agent_id_of v) v (agentid_to_vehid st),
                   agent_interfaces := AList.update (agent_id_of v) i (agent_interfaces st)\<rparr>"
  show ?case
  proof (cases "history_start_time st")
    case None
    from Cons.IH [OF rest nz(2), of "?st1\<lparr>history_start_time := Some (mission_start_time m)\<rparr>"] nz(1)
    obtain st' where
      "assign_loop i vm rest (?st1\<lparr>history_start_time := Some (mission_start_time m)\<rparr>) = Inr st'"
      and "history_start_time st'
            = Some (Min (insert (mission_start_time m) (mission_start_time ` set ms')))"
      by auto
    with None m ms show ?thesis by (simp add: Let_def)
  next
    case (Some t)
    with Cons.prems have t: "t \<noteq> 0" by simp
    show ?thesis
    proof (cases "mission_start_time m < t")
      case True
      from Cons.IH [OF rest nz(2), of "?st1\<lparr>history_start_time := Some (mission_start_time m)\<rparr>"] nz(1)
      obtain st' where
        "assign_loop i vm rest (?st1\<lparr>history_start_time := Some (mission_start_time m)\<rparr>) = Inr st'"
        and "history_start_time st'
              = Some (Min (insert (mission_start_time m) (mission_start_time ` set ms')))"
        by auto
      moreover from True
      have "Min (insert t (insert (mission_start_time m) (mission_start_time ` set ms')))
          = Min (insert (mission_start_time m) (mission_start_time ` set ms'))"
        by (simp only: Min_insert_lt [OF finite_imageI [OF finite_set]])
      ultimately show ?thesis using Some m ms True by (simp add: Let_def)
    next
      case False
      from Cons.IH [OF rest nz(2), of ?st1] Some t
      obtain st' where "assign_loop i vm rest ?st1 = Inr st'"
        and "history_start_time st' = Some (Min (insert t (mission_start_time ` set ms')))"
        by auto
      moreover from False
      have "Min (insert t (insert (mission_start_time m) (mission_start_time ` set ms')))
          = Min (insert t (mission_start_time ` set ms'))"
        by (simp only: Min_insert_ge [OF finite_imageI [OF finite_set]] not_less)
      ultimately show ?thesis using Some m ms False t by (simp add: Let_def)
    qed
  qed
qed

lemma episode_start_time_min:
  assumes "map (map_of veh_missions) sample = map Some ms"
    and "0 \<notin> mission_start_time ` set ms" and "sample \<noteq> []"
  shows "episode_start_time veh_missions sample = Inr (Some (Min (mission_start_time ` set ms)))"
proof -
  from assms have "ms \<noteq> []" by auto
  with assign_loop_min [OF assms(1,2),
      of "\<lparr>agentid_to_vehid = [], agent_interfaces = [], history_start_time = None\<rparr>" "()"]
  show ?thesis by (auto simp: episode_start_time_def)
qed

text \<open>
  Claim C2 fails on the code when a mission starts at time 0 and is not the last
  of the sample to be visited: \<^verbatim>\<open>not history_start_time\<close> holds for 0 as it does for
  \<^verbatim>\<open>None\<close>, so the next vehicle's start time replaces it. Vehicle 1 starts at 0,
  vehicle 2 at 5, the sample is iterated in this order, and the start time is 5.
\<close>

theorem start_time_skips_zero:
  "episode_start_time (veh_missions_of [mission_at ''1'' 0, mission_at ''2'' 5]) [''1'', ''2'']
     = Inr (Some 5)
   \<and> Min {mission_start_time (mission_at ''1'' 0), mission_start_time (mission_at ''2'' 5)} = 0"
  by (simp add: episode_start_time_def veh_missions_of_def mission_at_def agent_id_of_def Let_def)

section \<open>Properties of the simulation loop\<close>

lemma loop_condition_iff: "loop_condition dns \<longleftrightarrow> (\<exists>agent_id. (agent_id, False) \<in> set dns)"
  by (force simp: loop_condition_def list_all_iff)

lemma loop_condition_flags: "\<not> loop_condition dns \<longleftrightarrow> list_all snd dns"
  by (simp add: loop_condition_def list_all_iff)

lemma simulation_loop_final:
  assumes "simulation_loop fl step ags st = Some r"
  shows "\<forall>st'. r = Inr st' \<longrightarrow> \<not> loop_condition (snd (snd st'))"
  using assms
proof (induction rule: simulation_loop.raw_induct [rotated 1, consumes 1])
  case (1 sl fl step ags st r)
  show ?case
  proof (cases "loop_condition (snd (snd st))")
    case True
    show ?thesis
    proof (cases "loop_body fl step ags st")
      case (Inl e)
      with 1(2) True have "r = Inl e" by simp
      then show ?thesis by simp
    next
      case (Inr st1)
      with 1(2) True have "sl fl step ags st1 = Some r" by simp
      then show ?thesis by (rule 1(1))
    qed
  next
    case False
    with 1(2) show ?thesis by auto
  qed
qed

lemma episode_final:
  assumes "episode fl str set_iter random_sample rounder_for_dt read_data smarts th veh_missions k g
             = Some (Inr (st', g'))"
  shows "list_all snd (snd (snd st'))"
proof -
  from assms obtain ags st where "simulation_loop fl (sim_step smarts) ags st = Some (Inr st')"
    by (auto simp: episode_def split: sum.splits option.splits prod.splits if_splits)
  from simulation_loop_final [OF this] show ?thesis
    by (simp add: loop_condition_flags)
qed

text \<open>
  Claim C9. The loop condition holds exactly when some done flag of the \<^verbatim>\<open>dones\<close>
  mapping is false; when it holds the loop runs its body once more and goes on from
  the state the body leaves, when it does not hold the loop ends in the state it is
  in; so whenever the loop, or an episode, ends without an exception, every done flag
  of the final \<^verbatim>\<open>dones\<close> mapping is true.
\<close>

theorem simulation_loop_runs_until_all_done:
  "(loop_condition dns \<longleftrightarrow> (\<exists>agent_id. (agent_id, False) \<in> set dns))
   \<and> (loop_condition (snd (snd st)) \<longrightarrow>
        simulation_loop fl step ags st =
          (case loop_body fl step ags st of
             Inl e \<Rightarrow> Some (Inl e)
           | Inr st1 \<Rightarrow> simulation_loop fl step ags st1))
   \<and> (\<not> loop_condition (snd (snd st)) \<longrightarrow> simulation_loop fl step ags st = Some (Inr st))
   \<and> (simulation_loop fl step ags st = Some (Inr st') \<longrightarrow> list_all snd (snd (snd st')))
   \<and> (episode fl str set_iter random_sample rounder_for_dt read_data smarts th veh_missions k g
        = Some (Inr (st', g')) \<longrightarrow> list_all snd (snd (snd st')))"
proof (intro conjI impI)
  show "loop_condition dns \<longleftrightarrow> (\<exists>agent_id. (agent_id, False) \<in> set dns)"
    by (rule loop_condition_iff)
next
  assume "loop_condition (snd (snd st))"
  then show "simulation_loop fl step ags st =
          (case loop_body fl step ags st of
             Inl e \<Rightarrow> Some (Inl e)
           | Inr st1 \<Rightarrow> simulation_loop fl step ags st1)"
    by (subst simulation_loop.simps) simp
next
  assume "\<not> loop_condition (snd (snd st))"
  then show "simulation_loop fl step ags st = Some (Inr st)"
    by (subst simulation_loop.simps) simp
next
  assume "simulation_loop fl step ags st = Some (Inr st')"
  from simulation_loop_final [OF this] show "list_all snd (snd (snd st'))"
    by (simp add: loop_condition_flags)
next
  assume "episode fl str set_iter random_sample rounder_for_dt read_data smarts th veh_missions k g
        = Some (Inr (st', g'))"
  then show "list_all snd (snd (snd st'))"
    by (rule episode_final)
qed

text \<open>
  A run with two agents. Both flags are false at the start; after the first pass the
  agent of vehicle 7 is done and the agent of vehicle 8 is not, so one flag is true,
  one is false, and the loop goes on; after the second pass the only flag reported
  is true and the loop ends. The same run is the loop of an episode that samples both
  vehicles.
\<close>

theorem simulation_loop_runs_until_all_done_witness:
  "loop_condition (snd (snd example_start))
   \<and> loop_body no_rounding example_step example_agents example_start
       = Inr (Suc 0, [(''ego-agent-IL-8'', example_obs (2 / 10) (state_of record_402))],
              [(''ego-agent-IL-7'', True), (''ego-agent-IL-8'', False)])
   \<and> loop_condition [(''ego-agent-IL-7'', True), (''ego-agent-IL-8'', False)]
   \<and> simulation_loop no_rounding example_step example_agents example_start
       = Some (Inr (2, [], [(''ego-agent-IL-8'', True)]))
   \<and> \<not> loop_condition [(''ego-agent-IL-8'', True)]
   \<and> episode no_rounding (\<lambda>e. e) remdups first_k one_decimal (\<lambda>v. Inr example_series)
        example_smarts ngsim_history (veh_missions_of [mission_at ''7'' 40, mission_at ''8'' 41]) 2 0
       = Some (Inr ((2, [], [(''ego-agent-IL-8'', True)]), 1))
   \<and> list_all snd [(''ego-agent-IL-8'', True)]"
proof -
  let ?s1 = "(Suc 0, [(''ego-agent-IL-8'', example_obs (2 / 10) (state_of record_402))],
              [(''ego-agent-IL-7'', True), (''ego-agent-IL-8'', False)])"
  let ?s2 = "(2 :: nat, [] :: (string \<times> observation) list, [(''ego-agent-IL-8'', True)])"
  have again: "loop_condition (snd (snd st)) \<longrightarrow>
        simulation_loop no_rounding example_step example_agents st =
          (case loop_body no_rounding example_step example_agents st of
             Inl e \<Rightarrow> Some (Inl e)
           | Inr st1 \<Rightarrow> simulation_loop no_rounding example_step example_agents st1)" for st
    by (rule simulation_loop_runs_until_all_done
        [where fl = no_rounding and step = example_step and ags = example_agents and st = st,
          THEN conjunct2, THEN conjunct1])
  have stop: "\<not> loop_condition (snd (snd st)) \<longrightarrow>
        simulation_loop no_rounding example_step example_agents st = Some (Inr st)" for st
    by (rule simulation_loop_runs_until_all_done
        [where fl = no_rounding and step = example_step and ags = example_agents and st = st,
          THEN conjunct2, THEN conjunct2, THEN conjunct1])
  have final: "simulation_loop no_rounding example_step example_agents example_start
          = Some (Inr st')
        \<longrightarrow> list_all snd (snd (snd st'))" for st'
    by (rule simulation_loop_runs_until_all_done
        [where fl = no_rounding and step = example_step and ags = example_agents
          and st = example_start and st' = st',
          THEN conjunct2, THEN conjunct2, THEN conjunct2, THEN conjunct1])
  have ep_final: "episode no_rounding (\<lambda>e. e) remdups first_k one_decimal (\<lambda>v. Inr example_series)
        example_smarts ngsim_history (veh_missions_of [mission_at ''7'' 40, mission_at ''8'' 41]) 2 0
          = Some (Inr (st', 1 :: nat)) \<longrightarrow> list_all snd (snd (snd st'))" for st'
    by (rule simulation_loop_runs_until_all_done
        [where fl = no_rounding and st' = st' and g' = 1 and g = 0 and k = 2
          and smarts = example_smarts and th = ngsim_history
          and veh_missions = "veh_missions_of [mission_at ''7'' 40, mission_at ''8'' 41]"
          and str = "\<lambda>e. e" and set_iter = remdups and random_sample = first_k
          and rounder_for_dt = one_decimal and read_data = "\<lambda>v. Inr example_series",
          THEN conjunct2, THEN conjunct2, THEN conjunct2, THEN conjunct2])
  have mixed: "loop_condition [(''ego-agent-IL-7'', True), (''ego-agent-IL-8'', False)]
        \<longleftrightarrow> (\<exists>agent_id. (agent_id, False)
               \<in> set [(''ego-agent-IL-7'', True), (''ego-agent-IL-8'', False)])"
    by (rule simulation_loop_runs_until_all_done
        [where dns = "[(''ego-agent-IL-7'', True), (''ego-agent-IL-8'', False)]", THEN conjunct1])
  have c0: "loop_condition (snd (snd example_start))"
    by (simp add: example_start_def loop_condition_def)
  have c1: "loop_condition [(''ego-agent-IL-7'', True), (''ego-agent-IL-8'', False)]"
    unfolding mixed by (rule exI [of _ "''ego-agent-IL-8''"]) simp
  have c2: "\<not> loop_condition [(''ego-agent-IL-8'', True)]"
    by (simp add: loop_condition_def)
  have b0: "loop_body no_rounding example_step example_agents example_start = Inr ?s1"
    by (simp add: loop_body_def example_step_def example_agents_def example_start_def example_defs)
  have b1: "loop_body no_rounding example_step example_agents ?s1 = Inr ?s2"
    by (simp add: loop_body_def example_step_def example_agents_def example_defs)
  have c1': "loop_condition (snd (snd ?s1))"
    using c1 by simp
  have c2': "\<not> loop_condition (snd (snd ?s2))"
    using c2 by simp
  have "simulation_loop no_rounding example_step example_agents example_start
      = (case loop_body no_rounding example_step example_agents example_start of
           Inl e \<Rightarrow> Some (Inl e)
         | Inr st1 \<Rightarrow> simulation_loop no_rounding example_step example_agents st1)"
    by (rule again [of example_start, THEN mp, OF c0])
  also have "\<dots> = simulation_loop no_rounding example_step example_agents ?s1"
    by (simp only: b0 sum.case)
  also have "\<dots> = (case loop_body no_rounding example_step example_agents ?s1 of
           Inl e \<Rightarrow> Some (Inl e)
         | Inr st1 \<Rightarrow> simulation_loop no_rounding example_step example_agents st1)"
    by (rule again [of ?s1, THEN mp, OF c1'])
  also have "\<dots> = simulation_loop no_rounding example_step example_agents ?s2"
    by (simp only: b1 sum.case)
  also have "\<dots> = Some (Inr ?s2)"
    by (rule stop [of ?s2, THEN mp, OF c2'])
  finally have run:
    "simulation_loop no_rounding example_step example_agents example_start = Some (Inr ?s2)" .
  have "episode no_rounding (\<lambda>e. e) remdups first_k one_decimal (\<lambda>v. Inr example_series)
        example_smarts ngsim_history (veh_missions_of [mission_at ''7'' 40, mission_at ''8'' 41]) 2 0
      = (case simulation_loop no_rounding example_step example_agents example_start of
           None \<Rightarrow> None
         | Some (Inl e) \<Rightarrow> Some (Inl e)
         | Some (Inr st) \<Rightarrow> Some (Inr (st, Suc 0)))"
    by (simp add: episode_def select_sample_def ngsim_history_def first_k_def veh_missions_of_def
        mission_at_def episode_step_cap_def agent_id_of_def Let_def sim_start_time_def
        example_smarts_def example_agents_def example_start_def agent_for_def
        load_data_for_vehicle_def ReplayCheckerAgent_def)
  with run have ep: "episode no_rounding (\<lambda>e. e) remdups first_k one_decimal
        (\<lambda>v. Inr example_series) example_smarts ngsim_history
        (veh_missions_of [mission_at ''7'' 40, mission_at ''8'' 41]) 2 0
      = Some (Inr (?s2, 1))"
    by simp
  from final [of ?s2] run
  have "list_all snd (snd (snd ?s2))" by blast
  moreover from ep_final [of ?s2] ep
  have "list_all snd (snd (snd ?s2))" by blast
  ultimately show ?thesis using c0 c1 c2 b0 run ep by simp
qed

end
